theory Spec2Isabelle
  imports Main "HOL-Library.Char_ord" "HOL-Library.List_Lexorder"
begin

section \<open>Strings\<close>

text \<open>
  Strings are byte lists. \<open>lower\<close> and \<open>upper\<close> are Python's \<^verbatim>\<open>str.lower\<close> and
  \<^verbatim>\<open>str.upper\<close> on the ASCII letters; other bytes are left alone.
\<close>

definition lower_char :: "char \<Rightarrow> char" where
  "lower_char c =
     (case map_of (zip ''ABCDEFGHIJKLMNOPQRSTUVWXYZ'' ''abcdefghijklmnopqrstuvwxyz'') c of
        Some d \<Rightarrow> d
      | None \<Rightarrow> c)"

definition upper_char :: "char \<Rightarrow> char" where
  "upper_char c =
     (case map_of (zip ''abcdefghijklmnopqrstuvwxyz'' ''ABCDEFGHIJKLMNOPQRSTUVWXYZ'') c of
        Some d \<Rightarrow> d
      | None \<Rightarrow> c)"

definition lower :: "string \<Rightarrow> string" where
  "lower s = map lower_char s"

definition upper :: "string \<Rightarrow> string" where
  "upper s = map upper_char s"

definition endswith :: "string \<Rightarrow> string \<Rightarrow> bool" where
  "endswith s t = (length t \<le> length s \<and> drop (length s - length t) s = t)"

text \<open>The characters \<^verbatim>\<open>str.strip()\<close> removes, as far as they are ASCII.\<close>

definition is_space :: "char \<Rightarrow> bool" where
  "is_space c =
     (c \<in> set [CHR 0x09, CHR 0x0A, CHR 0x0B, CHR 0x0C, CHR 0x0D,
               CHR 0x1C, CHR 0x1D, CHR 0x1E, CHR 0x1F, CHR 0x20])"

definition strip :: "string \<Rightarrow> string" where
  "strip s = rev (dropWhile is_space (rev (dropWhile is_space s)))"

fun split_on :: "char \<Rightarrow> string \<Rightarrow> string list" where
  "split_on d [] = [[]]"
| "split_on d (c # cs) =
     (if c = d then [] # split_on d cs
      else (case split_on d cs of
              g # gs \<Rightarrow> (c # g) # gs
            | [] \<Rightarrow> [[c]]))"

fun sep_join :: "string \<Rightarrow> string list \<Rightarrow> string" where
  "sep_join sep [] = []"
| "sep_join sep [x] = x"
| "sep_join sep (x # y # ys) = x @ sep @ sep_join sep (y # ys)"

text \<open>
  \<^verbatim>\<open>s.rfind(c)\<close>: the index of the last occurrence of \<open>c\<close>; Python's \<open>-1\<close> is \<open>None\<close>.
\<close>

definition rfind :: "char \<Rightarrow> string \<Rightarrow> nat option" where
  "rfind c s =
     (if c \<in> set s then Some (length s - 1 - length (takeWhile (\<lambda>x. x \<noteq> c) (rev s)))
      else None)"

text \<open>
  \<^verbatim>\<open>int(s)\<close> on a string, base 10: surrounding white space is dropped, one sign is
  allowed, and the digits may be grouped by single underscores. \<open>None\<close> is Python's
  ValueError. Only ASCII digits are recognised, and the interpreter's configurable limit
  on the number of digits is not part of the model.
\<close>

definition digit_val :: "char \<Rightarrow> int option" where
  "digit_val c = map_of (zip ''0123456789'' [0, 1, 2, 3, 4, 5, 6, 7, 8, 9]) c"

definition is_digit :: "char \<Rightarrow> bool" where
  "is_digit c = (digit_val c \<noteq> None)"

definition digits_value :: "string \<Rightarrow> int" where
  "digits_value ds = foldl (\<lambda>a c. 10 * a + (case digit_val c of Some v \<Rightarrow> v | None \<Rightarrow> 0)) 0 ds"

definition py_int :: "string \<Rightarrow> int option" where
  "py_int s =
     (let t = strip s;
          neg = (take 1 t = ''-'');
          body = (if take 1 t = ''-'' \<or> take 1 t = ''+'' then drop 1 t else t);
          groups = split_on CHR ''_'' body
      in if list_all (\<lambda>g. g \<noteq> [] \<and> list_all is_digit g) groups
         then Some (if neg then - digits_value (concat groups)
                    else digits_value (concat groups))
         else None)"

section \<open>Paths\<close>

text \<open>
  A path is the list of its components, as \<^verbatim>\<open>PurePosixPath.parts\<close> gives them: an
  absolute path starts with the component \<open>''/''\<close>, the path \<^verbatim>\<open>.\<close> has no components.
  \<^verbatim>\<open>sorted\<close> compares paths by these lists, component by component and each component
  byte by byte; that is the order of \<open>HOL-Library.List_Lexorder\<close> over \<open>Char_ord\<close>.
  The suffix of a path starts at the last dot of its name, unless that dot is the first
  or the last character of the name; the stem is the name without the suffix.
\<close>

type_synonym path = "string list"

datatype error = ValueError | FileExistsError | FileNotFoundError | NotADirectoryError
  | RuntimeError

definition is_root :: "string \<Rightarrow> bool" where
  "is_root c = (c = ''/'' \<or> c = ''//'')"

definition has_root :: "path \<Rightarrow> bool" where
  "has_root p = (case p of [] \<Rightarrow> False | c # _ \<Rightarrow> is_root c)"

text \<open>\<^verbatim>\<open>Path(s)\<close>: empty components and \<^verbatim>\<open>.\<close> are dropped, the root is kept.\<close>

definition Path :: "string \<Rightarrow> path" where
  "Path s =
     (let comps = filter (\<lambda>c. c \<noteq> [] \<and> c \<noteq> ''.'') (split_on CHR ''/'' s);
          root = (if take 2 s = ''//'' \<and> take 3 s \<noteq> ''///'' then [''//'']
                  else if take 1 s = ''/'' then [''/'']
                  else [])
      in root @ comps)"

definition str_path :: "path \<Rightarrow> string" where
  "str_path p =
     (let s = (if has_root p then hd p @ sep_join ''/'' (tl p) else sep_join ''/'' p)
      in if s = [] then ''.'' else s)"

definition name :: "path \<Rightarrow> string" where
  "name p = (if length p = (if has_root p then 1 else 0) then [] else last p)"

definition suffix :: "path \<Rightarrow> string" where
  "suffix p =
     (case rfind CHR ''.'' (name p) of
        Some i \<Rightarrow> if 0 < i \<and> i < length (name p) - 1 then drop i (name p) else []
      | None \<Rightarrow> [])"

definition stem :: "path \<Rightarrow> string" where
  "stem p =
     (case rfind CHR ''.'' (name p) of
        Some i \<Rightarrow> if 0 < i \<and> i < length (name p) - 1 then take i (name p) else name p
      | None \<Rightarrow> name p)"

definition parent :: "path \<Rightarrow> path" where
  "parent p = (if length p = 1 \<and> has_root p then p else butlast p)"

text \<open>\<^verbatim>\<open>a / b\<close>: an absolute right operand replaces the left one.\<close>

definition join :: "path \<Rightarrow> path \<Rightarrow> path" where
  "join a b = (if has_root b then b else a @ b)"

definition with_suffix :: "path \<Rightarrow> string \<Rightarrow> error + path" where
  "with_suffix p sfx =
     (if CHR ''/'' \<in> set sfx then Inl ValueError
      else if (sfx \<noteq> [] \<and> take 1 sfx \<noteq> ''.'') \<or> sfx = ''.'' then Inl ValueError
      else if name p = [] then Inl ValueError
      else if suffix p = [] then Inr (butlast p @ [name p @ sfx])
      else Inr (butlast p @ [take (length (name p) - length (suffix p)) (name p) @ sfx]))"

definition relative_to :: "path \<Rightarrow> path \<Rightarrow> error + path" where
  "relative_to p d =
     (if take (length d) p = d \<and> has_root p = has_root d
      then Inr (drop (length d) p)
      else Inl ValueError)"

section \<open>The file system\<close>

text \<open>
  The file system is the list of its entries, each path in the spelling the program uses,
  with its kind. The order of the list is the order in which a directory scan yields the
  entries, which nothing guarantees. The paths \<^verbatim>\<open>.\<close> and \<^verbatim>\<open>/\<close> always name
  directories. Symbolic links and permissions are not modelled.
\<close>

datatype kind = File | Dir

type_synonym fsys = "(path \<times> kind) list"

definition lookup :: "fsys \<Rightarrow> path \<Rightarrow> kind option" where
  "lookup fs p = (if p = [] \<or> (length p = 1 \<and> has_root p) then Some Dir else map_of fs p)"

definition exists :: "fsys \<Rightarrow> path \<Rightarrow> bool" where
  "exists fs p = (lookup fs p \<noteq> None)"

definition is_file :: "fsys \<Rightarrow> path \<Rightarrow> bool" where
  "is_file fs p = (lookup fs p = Some File)"

definition is_dir :: "fsys \<Rightarrow> path \<Rightarrow> bool" where
  "is_dir fs p = (lookup fs p = Some Dir)"

text \<open>Every entry lies in a directory: the invariant of a real file system.\<close>

definition wf_fs :: "fsys \<Rightarrow> bool" where
  "wf_fs fs = list_all (\<lambda>e. is_dir fs (parent (fst e))) fs"

text \<open>The system call \<^verbatim>\<open>mkdir(2)\<close> with its three failures.\<close>

definition os_mkdir :: "path \<Rightarrow> fsys \<Rightarrow> error + fsys" where
  "os_mkdir p fs =
     (if exists fs p then Inl FileExistsError
      else (case lookup fs (parent p) of
              None \<Rightarrow> Inl FileNotFoundError
            | Some File \<Rightarrow> Inl NotADirectoryError
            | Some Dir \<Rightarrow> Inr ((p, Dir) # fs)))"

text \<open>\<^verbatim>\<open>Path.mkdir(parents=False, exist_ok=True)\<close>\<close>

definition mkdir_leaf :: "path \<Rightarrow> fsys \<Rightarrow> error + fsys" where
  "mkdir_leaf p fs =
     (case os_mkdir p fs of
        Inr fs' \<Rightarrow> Inr fs'
      | Inl e \<Rightarrow> if e = FileNotFoundError then Inl e
                 else if is_dir fs p then Inr fs else Inl e)"

text \<open>
  \<^verbatim>\<open>Path.mkdir(parents=True, exist_ok=True)\<close>: a missing parent is created first, by
  the same call on the parent, and the directory itself is then made without
  \<^verbatim>\<open>parents\<close>.
\<close>

function mkdir :: "path \<Rightarrow> fsys \<Rightarrow> error + fsys" where
  "mkdir p fs =
     (case os_mkdir p fs of
        Inr fs' \<Rightarrow> Inr fs'
      | Inl e \<Rightarrow>
          if e = FileNotFoundError then
            (if parent p = p then Inl e
             else (case mkdir (parent p) fs of
                     Inl e' \<Rightarrow> Inl e'
                   | Inr fs1 \<Rightarrow> mkdir_leaf p fs1))
          else if is_dir fs p then Inr fs else Inl e)"
  by pat_completeness auto
termination
proof (relation "measure (\<lambda>(p, fs). length p)")
  show "wf (measure (\<lambda>(p, fs). length p))" by simp
next
  fix p :: path and fs :: fsys and e :: error
  assume "parent p \<noteq> p"
  then have "p \<noteq> []" and "parent p = butlast p"
    by (auto simp: parent_def split: if_splits)
  then show "((parent p, fs), (p, fs)) \<in> measure (\<lambda>(p, fs). length p)"
    by simp
qed

declare mkdir.simps [simp del]

section \<open>External processes\<close>

text \<open>
  An argument of a command line is a literal string or the string of a path
  (\<^verbatim>\<open>str(p)\<close>, kept as the path it was made from). \<^verbatim>\<open>subprocess.run\<close> either
  completes with a return code and the two captured streams, or raises; the process may
  change the file system. The streams are taken to be ASCII text, as the two tools print
  it.
\<close>

datatype arg = Str string | PathArg path

datatype proc = Completed (returncode: int) (stdout: string) (stderr: string)
  | Raised string

record os =
  which :: "string \<Rightarrow> bool"
  case_sensitive :: bool
  run :: "arg list \<Rightarrow> fsys \<Rightarrow> proc \<times> fsys"

text \<open>
  What a call of \<open>convert_file\<close> does to the outside world, in the order it does it:
  queries of the file system, the creation of the output directory, and processes.
\<close>

datatype event = Stat path | Mkdir path | Run "arg list"

definition is_transcode :: "event \<Rightarrow> bool" where
  "is_transcode ev = (case ev of Run (Str c # _) \<Rightarrow> c = ''ffmpeg'' | _ \<Rightarrow> False)"

definition is_process :: "event \<Rightarrow> bool" where
  "is_process ev = (case ev of Run _ \<Rightarrow> True | _ \<Rightarrow> False)"

section \<open>The converter\<close>

definition SUPPORTED_FORMATS :: "string list" where
  "SUPPORTED_FORMATS =
     [''.mp3'', ''.wav'', ''.flac'', ''.m4a'', ''.aac'', ''.ogg'',
      ''.opus'', ''.wma'', ''.aiff'', ''.ape'', ''.ac3'', ''.mp2'']"

record AudioConverter =
  output_dir :: "string option"
  overwrite :: bool
  keep_structure :: bool

type_synonym result = "bool \<times> string"

text \<open>Python's truth value of \<^verbatim>\<open>self.output_dir\<close>: neither \<^verbatim>\<open>None\<close> nor empty.\<close>

definition truthy :: "string option \<Rightarrow> bool" where
  "truthy s = (case s of None \<Rightarrow> False | Some t \<Rightarrow> t \<noteq> [])"

definition check_ffmpeg :: "os \<Rightarrow> error + unit" where
  "check_ffmpeg w = (if \<not> which w ''ffmpeg'' then Inl RuntimeError else Inr ())"

definition init :: "os \<Rightarrow> string option \<Rightarrow> bool \<Rightarrow> bool \<Rightarrow> error + AudioConverter" where
  "init w od ow ks =
     (case check_ffmpeg w of
        Inl e \<Rightarrow> Inl e
      | Inr _ \<Rightarrow> Inr \<lparr>output_dir = od, overwrite = ow, keep_structure = ks\<rparr>)"

definition ffprobe_cmd :: "path \<Rightarrow> arg list" where
  "ffprobe_cmd file_path =
     [Str ''ffprobe'', Str ''-v'', Str ''error'', Str ''-show_entries'',
      Str ''format=bit_rate'', Str ''-of'', Str ''default=noprint_wrappers=1:nokey=1'',
      PathArg file_path]"

text \<open>
  \<open>get_bitrate\<close>: the bit rate in kbit/s, or \<open>None\<close> when the probe raises, exits
  with a non-zero code, prints nothing or prints something \<^verbatim>\<open>int\<close> rejects.
\<close>

definition get_bitrate :: "os \<Rightarrow> path \<Rightarrow> fsys \<Rightarrow> int option \<times> fsys" where
  "get_bitrate w file_path fs =
     (case run w (ffprobe_cmd file_path) fs of
        (Completed rc out err, fs') \<Rightarrow>
          (if rc = 0 \<and> strip out \<noteq> []
           then (case py_int (strip out) of
                   Some n \<Rightarrow> (Some (n div 1000), fs')
                 | None \<Rightarrow> (None, fs'))
           else (None, fs'))
      | (Raised e, fs') \<Rightarrow> (None, fs'))"

definition ffmpeg_cmd :: "path \<Rightarrow> bool \<Rightarrow> path \<Rightarrow> arg list" where
  "ffmpeg_cmd input_path ow output_path =
     [Str ''ffmpeg'', Str ''-i'', PathArg input_path, Str ''-vn'', Str ''-ar'', Str ''44100'',
      Str ''-ac'', Str ''2'', Str ''-b:a'', Str ''320k'', Str ''-map'', Str ''a'',
      Str ''-map_metadata'', Str ''0'', Str ''-id3v2_version'', Str ''3'']
     @ (if ow then [Str ''-y''] else [])
     @ [PathArg output_path]"

text \<open>The arrow of the success message, U+2192, in UTF-8.\<close>

definition arrow :: string where
  "arrow = [CHR 0xE2, CHR 0x86, CHR 0x92]"

text \<open>Lines 67 to 74 of \<open>convert_file\<close>: the output path.\<close>

definition derive_output_path :: "AudioConverter \<Rightarrow> path \<Rightarrow> path option \<Rightarrow> error + path" where
  "derive_output_path self input_path output_path =
     (case output_path of
        None \<Rightarrow>
          (if truthy (output_dir self)
           then Inr (join (Path (the (output_dir self))) (Path (stem input_path @ ''.mp3'')))
           else with_suffix input_path ''.mp3'')
      | Some p \<Rightarrow> Inr p)"

text \<open>
  Lines 81 to 86: the output exists and must not be overwritten. Python's
  \<^verbatim>\<open>bitrate and bitrate >= 320\<close> is false for \<^verbatim>\<open>None\<close> and for 0.
\<close>

definition skip_existing ::
  "os \<Rightarrow> path \<Rightarrow> path \<Rightarrow> fsys \<Rightarrow> (result \<times> event list) \<times> fsys" where
  "skip_existing w input_path output_path fs =
     (if lower (suffix input_path) = ''.mp3'' then
        (case get_bitrate w input_path fs of
           (bitrate, fs') \<Rightarrow>
             if bitrate \<noteq> None \<and> bitrate \<noteq> Some 0 \<and> the bitrate \<ge> 320
             then (((False, ''Skipped (already 320kbps): '' @ name input_path),
                    [Run (ffprobe_cmd input_path)]), fs')
             else (((False, ''Skipped (file exists): '' @ name output_path),
                    [Run (ffprobe_cmd input_path)]), fs'))
      else (((False, ''Skipped (file exists): '' @ name output_path), []), fs))"

text \<open>Lines 95 to 128: the command, the process and the reading of its outcome.\<close>

definition transcode ::
  "os \<Rightarrow> AudioConverter \<Rightarrow> path \<Rightarrow> path \<Rightarrow> fsys \<Rightarrow> (result \<times> event list) \<times> fsys" where
  "transcode w self input_path output_path fs =
     (let cmd = ffmpeg_cmd input_path (overwrite self) output_path
      in case run w cmd fs of
           (Completed rc out err, fs') \<Rightarrow>
             if rc = 0
             then (((True, ''Converted: '' @ name input_path @ '' '' @ arrow @ '' ''
                           @ name output_path), [Run cmd]), fs')
             else (((False, ''Conversion failed: '' @ name input_path @ [CHR 0x0A] @ err),
                    [Run cmd]), fs')
         | (Raised e, fs') \<Rightarrow>
             (((False, ''Error converting '' @ name input_path @ '': '' @ e), [Run cmd]), fs'))"

definition convert_file ::
  "os \<Rightarrow> AudioConverter \<Rightarrow> path \<Rightarrow> path option \<Rightarrow> fsys
     \<Rightarrow> error + ((result \<times> event list) \<times> fsys)" where
  "convert_file w self input_path output_path fs =
     (if \<not> exists fs input_path then
        Inr (((False, ''Input file not found: '' @ str_path input_path), [Stat input_path]), fs)
      else if lower (suffix input_path) \<notin> set SUPPORTED_FORMATS then
        Inr (((False, ''Unsupported format: '' @ suffix input_path), [Stat input_path]), fs)
      else
        (case derive_output_path self input_path output_path of
           Inl e \<Rightarrow> Inl e
         | Inr out \<Rightarrow>
             (case mkdir (parent out) fs of
                Inl e \<Rightarrow> Inl e
              | Inr fs1 \<Rightarrow>
                  (case (if exists fs1 out \<and> \<not> overwrite self
                         then skip_existing w input_path out fs1
                         else transcode w self input_path out fs1) of
                     ((r, evs), fs2) \<Rightarrow>
                       Inr ((r, [Stat input_path, Mkdir (parent out), Stat out] @ evs), fs2)))))"

section \<open>Directories\<close>

text \<open>
  \<^verbatim>\<open>input_dir.glob(pattern + ext)\<close>, where the pattern is \<^verbatim>\<open>*\<close> or \<^verbatim>\<open>**/*\<close>: the
  entries directly in the directory, or anywhere below it, whose name ends with the
  extension. The entries come in the order of the scan. Names are compared exactly where
  the platform's paths are case sensitive, and without regard to case elsewhere.
\<close>

definition matches :: "bool \<Rightarrow> string \<Rightarrow> string \<Rightarrow> bool" where
  "matches cs nm ext = (if cs then endswith nm ext else endswith (lower nm) (lower ext))"

definition glob :: "bool \<Rightarrow> fsys \<Rightarrow> path \<Rightarrow> bool \<Rightarrow> string \<Rightarrow> path list" where
  "glob cs fs input_dir recursive ext =
     filter (\<lambda>p. take (length input_dir) p = input_dir
                 \<and> (if recursive then length input_dir < length p
                    else length p = Suc (length input_dir))
                 \<and> matches cs (last p) ext)
            (map fst fs)"

text \<open>
  Lines 168 to 172. \<open>SUPPORTED_FORMATS\<close> is a Python set, so the loop may visit the
  extensions in any order: the order is the parameter \<open>exts\<close>.
\<close>

definition find_audio_files ::
  "bool \<Rightarrow> string list \<Rightarrow> fsys \<Rightarrow> path \<Rightarrow> bool \<Rightarrow> path list" where
  "find_audio_files cs exts fs input_dir recursive =
     concat (map (\<lambda>ext. glob cs fs input_dir recursive ext
                         @ glob cs fs input_dir recursive (upper ext)) exts)"

text \<open>Line 178, \<^verbatim>\<open>sorted(set(audio_files))\<close>.\<close>

definition candidates :: "bool \<Rightarrow> string list \<Rightarrow> fsys \<Rightarrow> path \<Rightarrow> bool \<Rightarrow> path list" where
  "candidates cs exts fs input_dir recursive =
     sorted_list_of_set (set (find_audio_files cs exts fs input_dir recursive))"

text \<open>Lines 186 to 196: the output path of one candidate.\<close>

definition candidate_output :: "AudioConverter \<Rightarrow> path \<Rightarrow> bool \<Rightarrow> path \<Rightarrow> error + path" where
  "candidate_output self input_dir recursive audio_file =
     (if truthy (output_dir self) then
        (if keep_structure self \<and> recursive then
           (case relative_to audio_file input_dir of
              Inl e \<Rightarrow> Inl e
            | Inr rel_path \<Rightarrow>
                (case with_suffix rel_path ''.mp3'' of
                   Inl e \<Rightarrow> Inl e
                 | Inr q \<Rightarrow> Inr (join (Path (the (output_dir self))) q)))
         else Inr (join (Path (the (output_dir self))) (Path (stem audio_file @ ''.mp3''))))
      else with_suffix audio_file ''.mp3'')"

text \<open>
  The loop of lines 183 to 200, one candidate after the other on the file system the
  previous one left. An exception ends the run.
\<close>

fun convert_each ::
  "os \<Rightarrow> AudioConverter \<Rightarrow> path \<Rightarrow> bool \<Rightarrow> path list \<Rightarrow> fsys
     \<Rightarrow> error + ((result \<times> event list) list \<times> fsys)" where
  "convert_each w self input_dir recursive [] fs = Inr ([], fs)"
| "convert_each w self input_dir recursive (audio_file # rest) fs =
     (case candidate_output self input_dir recursive audio_file of
        Inl e \<Rightarrow> Inl e
      | Inr out \<Rightarrow>
          (case convert_file w self audio_file (Some out) fs of
             Inl e \<Rightarrow> Inl e
           | Inr (r, fs1) \<Rightarrow>
               (case convert_each w self input_dir recursive rest fs1 of
                  Inl e \<Rightarrow> Inl e
                | Inr (rs, fs2) \<Rightarrow> Inr (r # rs, fs2))))"

definition convert_directory ::
  "os \<Rightarrow> AudioConverter \<Rightarrow> path \<Rightarrow> bool \<Rightarrow> fsys
     \<Rightarrow> error + ((result \<times> event list) list \<times> fsys)" where
  "convert_directory w self input_dir recursive fs =
     (if \<not> exists fs input_dir then
        Inr ([((False, ''Directory not found: '' @ str_path input_dir), [])], fs)
      else if \<not> is_dir fs input_dir then
        Inr ([((False, ''Not a directory: '' @ str_path input_dir), [])], fs)
      else if find_audio_files (case_sensitive w) SUPPORTED_FORMATS fs input_dir recursive = []
      then Inr ([((False, ''No audio files found in: '' @ str_path input_dir), [])], fs)
      else convert_each w self input_dir recursive
             (candidates (case_sensitive w) SUPPORTED_FORMATS fs input_dir recursive) fs)"

section \<open>The command line\<close>

record args =
  arg_input :: string
  arg_output :: "string option"
  arg_overwrite :: bool
  no_recursive :: bool
  no_structure :: bool

text \<open>
  \<open>main\<close> after the parsing of the arguments: the exit code, or the exception that
  leaves the program.
\<close>

definition main :: "os \<Rightarrow> args \<Rightarrow> fsys \<Rightarrow> error + int" where
  "main w a fs =
     (case init w (arg_output a) (arg_overwrite a) (\<not> no_structure a) of
        Inl e \<Rightarrow> Inl e
      | Inr converter \<Rightarrow>
          if is_file fs (Path (arg_input a)) then
            (case convert_file w converter (Path (arg_input a))
                    (if truthy (arg_output a) then Some (Path (the (arg_output a))) else None)
                    fs of
               Inl e \<Rightarrow> Inl e
             | Inr ((r, evs), fs') \<Rightarrow> Inr (if fst r then 0 else 1))
          else if is_dir fs (Path (arg_input a)) then
            (case convert_directory w converter (Path (arg_input a)) (\<not> no_recursive a) fs of
               Inl e \<Rightarrow> Inl e
             | Inr (results, fs') \<Rightarrow>
                 (let successful = length (filter (\<lambda>x. fst (fst x)) results);
                      failed = length results - successful
                  in Inr (if failed = 0 then 0 else 1)))
          else Inr 1)"

section \<open>Notions of the specification\<close>

text \<open>A result that reports a skip: a failure whose message starts with \<^verbatim>\<open>Skipped (\<close>.\<close>

definition is_skip :: "result \<Rightarrow> bool" where
  "is_skip r = (\<not> fst r \<and> take 9 (snd r) = ''Skipped ('')"


text \<open>
  The output path in the words of the specification: the explicit argument, else the file
  \<^verbatim>\<open>{stem}.mp3\<close> in the output root, else the same file next to the input.
\<close>

definition expected_output :: "AudioConverter \<Rightarrow> path \<Rightarrow> path option \<Rightarrow> path" where
  "expected_output self input_path output_path =
     (case output_path of
        Some p \<Rightarrow> p
      | None \<Rightarrow>
          if truthy (output_dir self)
          then Path (the (output_dir self)) @ [stem input_path @ ''.mp3'']
          else butlast input_path @ [stem input_path @ ''.mp3''])"

text \<open>A component as \<open>Path\<close> produces them: not empty, without a separator.\<close>

definition plain_component :: "string \<Rightarrow> bool" where
  "plain_component c = (c \<noteq> [] \<and> CHR ''/'' \<notin> set c)"

text \<open>The converter \<open>main\<close> builds from the arguments, and the output path it passes.\<close>

definition converter_of :: "args \<Rightarrow> AudioConverter" where
  "converter_of a =
     \<lparr>output_dir = arg_output a, overwrite = arg_overwrite a, keep_structure = \<not> no_structure a\<rparr>"

definition output_of :: "args \<Rightarrow> path option" where
  "output_of a = (if truthy (arg_output a) then Some (Path (the (arg_output a))) else None)"



section \<open>A simulated platform and sample data\<close>

text \<open>
  A platform to run the model on: the transcoder fails on the inputs listed as broken and
  where it cannot write, and otherwise writes its output; the probe prints what the table
  gives for the file.
\<close>

definition sim_run :: "path list \<Rightarrow> (path \<times> string) list \<Rightarrow> arg list \<Rightarrow> fsys \<Rightarrow> proc \<times> fsys" where
  "sim_run broken rates cmd fs =
     (if take 1 cmd = [Str ''ffmpeg''] then
        (case last cmd of
           PathArg out \<Rightarrow>
             if list_ex (\<lambda>b. take 1 (drop 2 cmd) = [PathArg b]) broken
             then (Completed 1 [] ''Invalid data found when processing input'', fs)
             else if \<not> is_dir fs (parent out) \<or> is_dir fs out
             then (Completed 1 [] ''Could not open the output file'', fs)
             else (Completed 0 [] [], if exists fs out then fs else (out, File) # fs)
         | Str s \<Rightarrow> (Completed 1 [] ''At least one output file must be specified'', fs))
      else if take 1 cmd = [Str ''ffprobe''] then
        (case last cmd of
           PathArg p \<Rightarrow>
             (case map_of rates p of
                Some s \<Rightarrow> (Completed 0 s [], fs)
              | None \<Rightarrow> (Completed 1 [] ''Invalid data found when processing input'', fs))
         | Str s \<Rightarrow> (Completed 1 [] ''You have to specify one input file'', fs))
      else (Raised ''No such file or directory'', fs))"

definition sim_os :: "bool \<Rightarrow> path list \<Rightarrow> (path \<times> string) list \<Rightarrow> os" where
  "sim_os cs broken rates =
     \<lparr>which = (\<lambda>c. c = ''ffmpeg'' \<or> c = ''ffprobe''), case_sensitive = cs,
      run = sim_run broken rates\<rparr>"

text \<open>A platform whose transcoder was found at the start and cannot be started later.\<close>

definition gone_os :: os where
  "gone_os =
     \<lparr>which = (\<lambda>c. c = ''ffmpeg''), case_sensitive = True,
      run = (\<lambda>cmd fs. (Raised ''No such file or directory'', fs))\<rparr>"

definition plain :: AudioConverter where
  "plain = \<lparr>output_dir = None, overwrite = False, keep_structure = True\<rparr>"

definition to_B :: AudioConverter where
  "to_B = \<lparr>output_dir = Some ''B'', overwrite = False, keep_structure = True\<rparr>"



definition notes_fs :: fsys where
  "notes_fs = [([''notes.txt''], File), ([''notes.mp3''], File)]"

definition music_fs :: fsys where
  "music_fs =
     [([''A''], Dir), ([''A'', ''sub''], Dir), ([''A'', ''sub'', ''x.wav''], File),
      ([''A'', ''sub'', ''old.mp3''], File), ([''A'', ''sub'', ''bad.flac''], File)]"

definition shuffled_fs :: fsys where
  "shuffled_fs =
     [([''A'', ''sub'', ''bad.flac''], File), ([''A'', ''sub'', ''x.wav''], File),
      ([''A'', ''sub''], Dir), ([''A'', ''sub'', ''old.mp3''], File), ([''A''], Dir)]"




definition x_wav :: path where
  "x_wav = [''A'', ''sub'', ''x.wav'']"

definition bad_flac :: path where
  "bad_flac = [''A'', ''sub'', ''bad.flac'']"

definition old_mp3 :: path where
  "old_mp3 = [''A'', ''sub'', ''old.mp3'']"


definition rates_320 :: "(path \<times> string) list" where
  "rates_320 = [(old_mp3, ''320000'' @ [CHR 0x0A])]"

definition rates_below :: "(path \<times> string) list" where
  "rates_below = [(old_mp3, ''319999'' @ [CHR 0x0A])]"

definition empty_dir_args :: args where
  "empty_dir_args =
     \<lparr>arg_input = ''A'', arg_output = None, arg_overwrite = False,
      no_recursive = False, no_structure = False\<rparr>"

definition music_args :: args where
  "music_args =
     \<lparr>arg_input = ''A'', arg_output = Some ''B'', arg_overwrite = False,
      no_recursive = False, no_structure = False\<rparr>"




section \<open>Properties of paths\<close>

lemma lower_Nil [simp]: "lower [] = []" by (simp add: lower_def)

lemma supported_suffix_nonempty:
  "lower (suffix p) \<in> set SUPPORTED_FORMATS \<Longrightarrow> suffix p \<noteq> []"
  by (auto simp: SUPPORTED_FORMATS_def)

lemma suffix_nonempty_name: "suffix p \<noteq> [] \<Longrightarrow> name p \<noteq> []"
  by (auto simp: suffix_def rfind_def split: option.splits if_splits)

lemma with_suffix_mp3:
  assumes "name p \<noteq> []"
  shows "with_suffix p ''.mp3'' = Inr (butlast p @ [stem p @ ''.mp3''])"
proof (cases "rfind CHR ''.'' (name p)")
  case None
  then show ?thesis using assms by (simp add: with_suffix_def suffix_def stem_def)
next
  case (Some i)
  show ?thesis
  proof (cases "0 < i \<and> i < length (name p) - 1")
    case True
    then have "suffix p = drop i (name p)" "stem p = take i (name p)"
      using Some by (simp_all add: suffix_def stem_def)
    moreover have "drop i (name p) \<noteq> []" using True by auto
    moreover have "length (name p) - (length (name p) - i) = i" using True by arith
    ultimately show ?thesis using assms by (simp add: with_suffix_def)
  next
    case False
    then show ?thesis using Some assms by (auto simp: with_suffix_def suffix_def stem_def)
  qed
qed

lemma split_on_absent: "d \<notin> set s \<Longrightarrow> split_on d s = [s]"
  by (induction s) auto


lemma Path_plain:
  assumes "plain_component s" and "s \<noteq> ''.''"
  shows "Path s = [s]"
proof -
  have "split_on CHR ''/'' s = [s]"
    using assms(1) by (simp add: plain_component_def split_on_absent)
  moreover have "take n s \<noteq> CHR ''/'' # t" for n t
  proof
    assume "take n s = CHR ''/'' # t"
    then have "CHR ''/'' \<in> set (take n s)" by simp
    then show False using assms(1) by (auto simp: plain_component_def dest: in_set_takeD)
  qed
  ultimately show ?thesis
    using assms by (simp add: Path_def plain_component_def)
qed

lemma stem_subset: "set (stem p) \<subseteq> set (name p)"
  by (auto simp: stem_def split: option.splits dest: in_set_takeD)

lemma Path_stem_mp3:
  assumes "CHR ''/'' \<notin> set (name p)"
  shows "Path (stem p @ ''.mp3'') = [stem p @ ''.mp3'']"
proof (rule Path_plain)
  show "plain_component (stem p @ ''.mp3'')"
    using assms stem_subset [of p] by (auto simp: plain_component_def)
  show "stem p @ ''.mp3'' \<noteq> ''.''" by simp
qed

lemma join_stem_mp3:
  assumes "CHR ''/'' \<notin> set (name p)"
  shows "join a (Path (stem p @ ''.mp3'')) = a @ [stem p @ ''.mp3'']"
proof -
  have "\<not> is_root (stem p @ ''.mp3'')" by (simp add: is_root_def)
  then show ?thesis
    using assms by (simp add: Path_stem_mp3 join_def has_root_def)
qed





section \<open>Properties of the file system\<close>

lemma mkdir_existing_dir: "is_dir fs p \<Longrightarrow> mkdir p fs = Inr fs"
  by (simp add: mkdir.simps os_mkdir_def is_dir_def exists_def)

lemma parent_is_dir:
  assumes "wf_fs fs" and "exists fs p"
  shows "is_dir fs (parent p)"
proof (cases "p = [] \<or> (length p = 1 \<and> has_root p)")
  case True
  then show ?thesis by (auto simp: is_dir_def lookup_def parent_def)
next
  case False
  then obtain k where "map_of fs p = Some k"
    using assms(2) by (auto simp: exists_def lookup_def)
  then have "(p, k) \<in> set fs" by (rule map_of_SomeD)
  then show ?thesis using assms(1) by (auto simp: wf_fs_def list_all_iff)
qed







section \<open>The simulated platform\<close>





lemma suffix_notes: "suffix [''notes.txt''] = ''.txt''"
  by (simp add: suffix_def name_def has_root_def is_root_def rfind_def)

lemma x_wav_facts:
  "exists music_fs x_wav"
  "lower (suffix x_wav) \<in> set SUPPORTED_FORMATS"
  "CHR ''/'' \<notin> set (name x_wav)"
  "name x_wav = ''x.wav''"
  "derive_output_path to_B x_wav None = Inr [''B'', ''x.mp3'']"
  "mkdir (parent [''B'', ''x.mp3'']) music_fs = Inr (([''B''], Dir) # music_fs)"
  "\<not> exists (([''B''], Dir) # music_fs) [''B'', ''x.mp3'']"
  "name [''B'', ''x.mp3''] = ''x.mp3''"
  "parent [''B'', ''x.mp3''] = [''B'']"
  "mkdir [''B''] music_fs = Inr (([''B''], Dir) # music_fs)"
  by code_simp+

lemma sim_run_x_wav:
  "run (sim_os cs [] rates) (ffmpeg_cmd x_wav False [''B'', ''x.mp3'']) (([''B''], Dir) # music_fs)
     = (Completed 0 [] [], ([''B'', ''x.mp3''], File) # ([''B''], Dir) # music_fs)"
  by (simp add: sim_os_def sim_run_def ffmpeg_cmd_def is_dir_def exists_def lookup_def
        parent_def has_root_def is_root_def music_fs_def)

lemma old_mp3_facts:
  "wf_fs music_fs"
  "exists music_fs old_mp3"
  "lower (suffix old_mp3) \<in> set SUPPORTED_FORMATS"
  "derive_output_path plain old_mp3 None = Inr old_mp3"
  "\<not> overwrite plain"
  "lower (suffix old_mp3) = ''.mp3''"
  "name old_mp3 = ''old.mp3''"
  "get_bitrate (sim_os True [] rates_320) old_mp3 music_fs = (Some 320, music_fs)"
  "get_bitrate (sim_os True [] rates_below) old_mp3 music_fs = (Some 319, music_fs)"
  "get_bitrate (sim_os True [] []) old_mp3 music_fs = (None, music_fs)"
  by code_simp+

lemma old_mp3_run:
  "convert_file (sim_os True [] rates_320) plain old_mp3 None music_fs =
     Inr (((False, ''Skipped (already 320kbps): old.mp3''),
           [Stat old_mp3, Mkdir [''A'', ''sub''], Stat old_mp3, Run (ffprobe_cmd old_mp3)]),
          music_fs)"
  by code_simp

lemma probe_below:
  "run (sim_os True [] rates_below) (ffprobe_cmd old_mp3) music_fs
     = (Completed 0 (''319999'' @ [CHR 0x0A]) [], music_fs)"
  "py_int (strip (''319999'' @ [CHR 0x0A])) = Some 319999"
  by code_simp+

lemma probe_320:
  "run (sim_os True [] rates_320) (ffprobe_cmd old_mp3) music_fs
     = (Completed 0 (''320000'' @ [CHR 0x0A]) [], music_fs)"
  "py_int (strip (''320000'' @ [CHR 0x0A])) = Some 320000"
  by code_simp+

section \<open>The steps of convert_file\<close>

lemma derive_expected:
  assumes "lower (suffix inp) \<in> set SUPPORTED_FORMATS" and "CHR ''/'' \<notin> set (name inp)"
  shows "derive_output_path self inp outp = Inr (expected_output self inp outp)"
proof -
  have "name inp \<noteq> []"
    using assms(1) by (blast dest: supported_suffix_nonempty suffix_nonempty_name)
  then show ?thesis
    using assms(2)
    by (simp add: derive_output_path_def expected_output_def with_suffix_mp3 join_stem_mp3
          split: option.splits)
qed

lemma convert_file_valid:
  assumes "exists fs inp" and "lower (suffix inp) \<in> set SUPPORTED_FORMATS"
    and "derive_output_path self inp outp = Inr out"
  shows "convert_file w self inp outp fs =
           (case mkdir (parent out) fs of
              Inl e \<Rightarrow> Inl e
            | Inr fs1 \<Rightarrow>
                (case (if exists fs1 out \<and> \<not> overwrite self
                       then skip_existing w inp out fs1
                       else transcode w self inp out fs1) of
                   ((r, evs), fs2) \<Rightarrow>
                     Inr ((r, [Stat inp, Mkdir (parent out), Stat out] @ evs), fs2)))"
  using assms by (simp add: convert_file_def)

lemma skip_existing_events:
  "skip_existing w inp out fs = ((r, evs), fs') \<Longrightarrow> evs = [] \<or> evs = [Run (ffprobe_cmd inp)]"
  by (auto simp: skip_existing_def split: if_splits prod.splits)

lemma transcode_events:
  "transcode w self inp out fs = ((r, evs), fs') \<Longrightarrow>
     evs = [Run (ffmpeg_cmd inp (overwrite self) out)]"
  by (auto simp: transcode_def Let_def split: if_splits prod.splits proc.splits)

lemma convert_file_skip_branch:
  assumes "wf_fs fs" and "exists fs inp" and "lower (suffix inp) \<in> set SUPPORTED_FORMATS"
    and "derive_output_path self inp outp = Inr out"
    and "exists fs out" and "\<not> overwrite self"
  shows "convert_file w self inp outp fs =
           (case skip_existing w inp out fs of
              ((r, evs), fs2) \<Rightarrow>
                Inr ((r, [Stat inp, Mkdir (parent out), Stat out] @ evs), fs2))"
proof -
  have "mkdir (parent out) fs = Inr fs"
    using assms(1,5) by (simp add: parent_is_dir mkdir_existing_dir)
  then show ?thesis
    using assms by (simp add: convert_file_valid)
qed

lemma truthy_bitrate:
  "(bitrate \<noteq> None \<and> bitrate \<noteq> Some 0 \<and> the bitrate \<ge> (320::int))
     = (\<exists>b. bitrate = Some b \<and> 320 \<le> b)"
  by (cases bitrate) auto

lemma skip_existing_result:
  "\<exists>evs fs'. skip_existing w inp out fs =
      (((False,
         if lower (suffix inp) = ''.mp3'' \<and> (\<exists>b. fst (get_bitrate w inp fs) = Some b \<and> 320 \<le> b)
         then ''Skipped (already 320kbps): '' @ name inp
         else ''Skipped (file exists): '' @ name out), evs), fs')
      \<and> (evs = [] \<or> evs = [Run (ffprobe_cmd inp)])
      \<and> fs' = (if lower (suffix inp) = ''.mp3'' then snd (get_bitrate w inp fs) else fs)"
proof (cases "get_bitrate w inp fs")
  case (Pair bitrate fs')
  then show ?thesis
    using truthy_bitrate [of bitrate] by (auto simp: skip_existing_def)
qed

lemma get_bitrate_unknown:
  "run w (ffprobe_cmd p) fs = (Raised e, fs2) \<Longrightarrow> get_bitrate w p fs = (None, fs2)"
  "run w (ffprobe_cmd p) fs = (Completed rc so se, fs2) \<Longrightarrow> rc \<noteq> 0 \<Longrightarrow>
     get_bitrate w p fs = (None, fs2)"
  "run w (ffprobe_cmd p) fs = (Completed rc so se, fs2) \<Longrightarrow> py_int (strip so) = None \<Longrightarrow>
     get_bitrate w p fs = (None, fs2)"
  by (simp_all add: get_bitrate_def)

lemma py_int_empty: "py_int [] = None"
  by (simp add: py_int_def strip_def)

lemma get_bitrate_known:
  assumes "run w (ffprobe_cmd p) fs = (Completed 0 so se, fs2)" and "py_int (strip so) = Some n"
  shows "get_bitrate w p fs = (Some (n div 1000), fs2)"
proof -
  have "strip so \<noteq> []" using assms(2) py_int_empty by auto
  then show ?thesis using assms by (simp add: get_bitrate_def)
qed

lemma not_transcode_prefix:
  "\<not> list_ex is_transcode [Stat a, Mkdir b, Stat c]"
  "\<not> list_ex is_transcode [Stat a, Mkdir b, Stat c, Run (ffprobe_cmd p)]"
  by (simp_all add: is_transcode_def ffprobe_cmd_def)

lemma skip_branch_result:
  assumes "wf_fs fs" and "exists fs inp" and "lower (suffix inp) \<in> set SUPPORTED_FORMATS"
    and "derive_output_path self inp outp = Inr out"
    and "exists fs out" and "\<not> overwrite self"
  shows "\<exists>evs fs'. convert_file w self inp outp fs =
            Inr (((False,
                   if lower (suffix inp) = ''.mp3''
                      \<and> (\<exists>b. fst (get_bitrate w inp fs) = Some b \<and> 320 \<le> b)
                   then ''Skipped (already 320kbps): '' @ name inp
                   else ''Skipped (file exists): '' @ name out), evs), fs')
            \<and> \<not> list_ex is_transcode evs"
proof -
  obtain evs fs' where s: "skip_existing w inp out fs =
      (((False,
         if lower (suffix inp) = ''.mp3'' \<and> (\<exists>b. fst (get_bitrate w inp fs) = Some b \<and> 320 \<le> b)
         then ''Skipped (already 320kbps): '' @ name inp
         else ''Skipped (file exists): '' @ name out), evs), fs')"
    and e: "evs = [] \<or> evs = [Run (ffprobe_cmd inp)]"
    using skip_existing_result [of w inp out fs] by blast
  have "\<not> list_ex is_transcode ([Stat inp, Mkdir (parent out), Stat out] @ evs)"
    using e not_transcode_prefix by auto
  then show ?thesis
    using convert_file_skip_branch [OF assms, of w] s by simp
qed

lemma transcode_not_skip: "transcode w self inp out fs = ((r, evs), fs') \<Longrightarrow> \<not> is_skip r"
  by (auto simp: transcode_def is_skip_def Let_def split: prod.splits proc.splits if_splits)

lemma skip_existing_is_skip: "skip_existing w inp out fs = ((r, evs), fs') \<Longrightarrow> is_skip r"
  using skip_existing_result [of w inp out fs] by (auto simp: is_skip_def)

lemma kbps_threshold: "(320 \<le> n div 1000) = (320000 \<le> (n::int))"
proof -
  define q where "q = n div 1000"
  define r where "r = n mod 1000"
  have "n = 1000 * q + r" and "0 \<le> r" and "r < 1000"
    by (simp_all add: q_def r_def)
  then have "(320 \<le> q) = (320000 \<le> n)" by arith
  then show ?thesis by (simp add: q_def)
qed

section \<open>Validation of the input\<close>

text \<open>
  Claim C6. For an input that exists and whose extension, in lower case, is not one of
  \<open>SUPPORTED_FORMATS\<close>, \<open>convert_file\<close> returns the failure \<^verbatim>\<open>Unsupported format\<close>
  with the extension, leaves the file system as it was and starts no process: all it did
  was to look whether the input exists.
\<close>

theorem unsupported_format_fails:
  assumes "exists fs input_path"
    and "lower (suffix input_path) \<notin> set SUPPORTED_FORMATS"
  shows "convert_file w self input_path output_path fs =
           Inr (((False, ''Unsupported format: '' @ suffix input_path), [Stat input_path]), fs)
         \<and> \<not> list_ex is_process [Stat input_path]"
  using assms by (simp add: convert_file_def is_process_def)

theorem unsupported_format_fails_witness:
  "exists notes_fs [''notes.txt'']
   \<and> lower (suffix [''notes.txt'']) \<notin> set SUPPORTED_FORMATS
   \<and> convert_file (sim_os True [] []) plain [''notes.txt''] None notes_fs =
       Inr (((False, ''Unsupported format: .txt''), [Stat [''notes.txt'']]), notes_fs)"
proof -
  have h1: "exists notes_fs [''notes.txt'']"
    by (simp add: exists_def lookup_def notes_fs_def has_root_def is_root_def)
  have h2: "lower (suffix [''notes.txt'']) \<notin> set SUPPORTED_FORMATS"
    by (simp add: suffix_notes lower_def lower_char_def SUPPORTED_FORMATS_def)
  show ?thesis
    using h1 h2 unsupported_format_fails [OF h1 h2, of "sim_os True [] []" plain None]
    by (simp add: suffix_notes)
qed

section \<open>The output path of a file\<close>

text \<open>
  Claim C5. For an input that passes validation (its name holds no separator, as every
  component of a parsed path), \<open>convert_file\<close> derives the output path in this order:
  the explicit argument as it is given; else, with an output root configured (a string
  that is neither absent nor empty), the file \<^verbatim>\<open>{stem}.mp3\<close> directly in the root;
  else \<^verbatim>\<open>{stem}.mp3\<close> next to the input. It is this path whose parent directory is
  created, whose existence is checked and which ends the transcoder's command line.
\<close>

theorem output_path_precedence:
  assumes "exists fs inp"
    and "lower (suffix inp) \<in> set SUPPORTED_FORMATS"
    and "CHR ''/'' \<notin> set (name inp)"
    and "convert_file w self inp outp fs = Inr ((r, evs), fs')"
  shows "derive_output_path self inp outp = Inr (expected_output self inp outp)
         \<and> (\<exists>rest. evs = [Stat inp, Mkdir (parent (expected_output self inp outp)),
                           Stat (expected_output self inp outp)] @ rest
               \<and> (rest = [] \<or> rest = [Run (ffprobe_cmd inp)]
                   \<or> rest = [Run (ffmpeg_cmd inp (overwrite self)
                                     (expected_output self inp outp))]))"
proof -
  let ?out = "expected_output self inp outp"
  have d: "derive_output_path self inp outp = Inr ?out"
    using assms(2,3) by (rule derive_expected)
  obtain fs1 where m: "mkdir (parent ?out) fs = Inr fs1"
    using assms(4) convert_file_valid [OF assms(1,2) d, of w]
    by (cases "mkdir (parent ?out) fs") auto
  show ?thesis
  proof (cases "exists fs1 ?out \<and> \<not> overwrite self")
    case True
    obtain r1 ev1 fs2 where s: "skip_existing w inp ?out fs1 = ((r1, ev1), fs2)"
      by (metis prod.exhaust)
    then have "evs = [Stat inp, Mkdir (parent ?out), Stat ?out] @ ev1"
      using assms(4) convert_file_valid [OF assms(1,2) d, of w] m True by simp
    then show ?thesis using d skip_existing_events [OF s] by auto
  next
    case False
    obtain r1 ev1 fs2 where s: "transcode w self inp ?out fs1 = ((r1, ev1), fs2)"
      by (metis prod.exhaust)
    then have "evs = [Stat inp, Mkdir (parent ?out), Stat ?out] @ ev1"
      using assms(4) convert_file_valid [OF assms(1,2) d, of w] m False by auto
    then show ?thesis using d transcode_events [OF s] by auto
  qed
qed

theorem output_path_precedence_witness:
  "exists music_fs x_wav
   \<and> lower (suffix x_wav) \<in> set SUPPORTED_FORMATS
   \<and> CHR ''/'' \<notin> set (name x_wav)
   \<and> convert_file (sim_os True [] []) to_B x_wav None music_fs =
       Inr (((True, ''Converted: x.wav '' @ arrow @ '' x.mp3''),
             [Stat x_wav, Mkdir [''B''], Stat [''B'', ''x.mp3''],
              Run (ffmpeg_cmd x_wav False [''B'', ''x.mp3''])]),
            ([''B'', ''x.mp3''], File) # ([''B''], Dir) # music_fs)
   \<and> derive_output_path to_B x_wav None = Inr (expected_output to_B x_wav None)
   \<and> expected_output to_B x_wav None = [''B'', ''x.mp3'']
   \<and> expected_output plain x_wav None = [''A'', ''sub'', ''x.mp3'']
   \<and> expected_output to_B x_wav (Some [''out'', ''song.mp3'']) = [''out'', ''song.mp3'']"
proof -
  have c: "convert_file (sim_os True [] []) to_B x_wav None music_fs =
       Inr (((True, ''Converted: x.wav '' @ arrow @ '' x.mp3''),
             [Stat x_wav, Mkdir [''B''], Stat [''B'', ''x.mp3''],
              Run (ffmpeg_cmd x_wav False [''B'', ''x.mp3''])]),
            ([''B'', ''x.mp3''], File) # ([''B''], Dir) # music_fs)"
    by code_simp
  have e: "expected_output to_B x_wav None = [''B'', ''x.mp3'']"
    "expected_output plain x_wav None = [''A'', ''sub'', ''x.mp3'']"
    "expected_output to_B x_wav (Some [''out'', ''song.mp3'']) = [''out'', ''song.mp3'']"
    by code_simp+
  show ?thesis
    using output_path_precedence [OF x_wav_facts(1,2,3) c] c e x_wav_facts(1,2,3)
    by simp
qed

section \<open>The outcome of the transcoder\<close>

text \<open>
  Claim C7. When \<open>convert_file\<close> reaches the transcoder (the input is valid, the output
  directory could be made, and the output is absent or may be overwritten), it always
  returns a result and never an exception: return code 0 gives success with the message
  \<^verbatim>\<open>Converted: name -> name\<close> (with the arrow U+2192), any other return code gives a
  failure that carries the captured error stream, and a process that could not be
  started gives a failure with the text of the exception.
\<close>

theorem transcoder_outcome:
  assumes "exists fs inp"
    and "lower (suffix inp) \<in> set SUPPORTED_FORMATS"
    and "derive_output_path self inp outp = Inr out"
    and "mkdir (parent out) fs = Inr fs1"
    and "\<not> exists fs1 out \<or> overwrite self"
  shows "convert_file w self inp outp fs =
           (case run w (ffmpeg_cmd inp (overwrite self) out) fs1 of
              (Completed rc so se, fs2) \<Rightarrow>
                Inr (((rc = 0,
                       if rc = 0
                       then ''Converted: '' @ name inp @ '' '' @ arrow @ '' '' @ name out
                       else ''Conversion failed: '' @ name inp @ [CHR 0x0A] @ se),
                      [Stat inp, Mkdir (parent out), Stat out,
                       Run (ffmpeg_cmd inp (overwrite self) out)]), fs2)
            | (Raised e, fs2) \<Rightarrow>
                Inr (((False, ''Error converting '' @ name inp @ '': '' @ e),
                      [Stat inp, Mkdir (parent out), Stat out,
                       Run (ffmpeg_cmd inp (overwrite self) out)]), fs2))"
proof -
  have c: "convert_file w self inp outp fs =
          (case transcode w self inp out fs1 of
             ((r, evs), fs2) \<Rightarrow> Inr ((r, [Stat inp, Mkdir (parent out), Stat out] @ evs), fs2))"
    using assms by (auto simp: convert_file_valid)
  show ?thesis
  proof (cases "run w (ffmpeg_cmd inp (overwrite self) out) fs1")
    case (Pair pr fs2)
    then show ?thesis using c by (cases pr) (simp_all add: transcode_def)
  qed
qed

lemma bad_flac_facts:
  "exists music_fs bad_flac"
  "lower (suffix bad_flac) \<in> set SUPPORTED_FORMATS"
  "derive_output_path to_B bad_flac None = Inr [''B'', ''bad.mp3'']"
  "mkdir (parent [''B'', ''bad.mp3'']) music_fs = Inr (([''B''], Dir) # music_fs)"
  "\<not> exists (([''B''], Dir) # music_fs) [''B'', ''bad.mp3'']"
  "name bad_flac = ''bad.flac''"
  "run (sim_os True [bad_flac] []) (ffmpeg_cmd bad_flac False [''B'', ''bad.mp3''])
       (([''B''], Dir) # music_fs)
     = (Completed 1 [] ''Invalid data found when processing input'', ([''B''], Dir) # music_fs)"
  "run gone_os (ffmpeg_cmd bad_flac False [''B'', ''bad.mp3'']) (([''B''], Dir) # music_fs)
     = (Raised ''No such file or directory'', ([''B''], Dir) # music_fs)"
  "parent [''B'', ''bad.mp3''] = [''B'']"
  "mkdir [''B''] music_fs = Inr (([''B''], Dir) # music_fs)"
  by code_simp+

theorem transcoder_outcome_witness:
  "exists music_fs x_wav
   \<and> lower (suffix x_wav) \<in> set SUPPORTED_FORMATS
   \<and> derive_output_path to_B x_wav None = Inr [''B'', ''x.mp3'']
   \<and> mkdir (parent [''B'', ''x.mp3'']) music_fs = Inr (([''B''], Dir) # music_fs)
   \<and> \<not> exists (([''B''], Dir) # music_fs) [''B'', ''x.mp3'']
   \<and> convert_file (sim_os True [] []) to_B x_wav None music_fs =
       Inr (((True, ''Converted: x.wav '' @ arrow @ '' x.mp3''),
             [Stat x_wav, Mkdir [''B''], Stat [''B'', ''x.mp3''],
              Run (ffmpeg_cmd x_wav False [''B'', ''x.mp3''])]),
            ([''B'', ''x.mp3''], File) # ([''B''], Dir) # music_fs)
   \<and> convert_file (sim_os True [bad_flac] []) to_B bad_flac None music_fs =
       Inr (((False, ''Conversion failed: bad.flac'' @ [CHR 0x0A]
                       @ ''Invalid data found when processing input''),
             [Stat bad_flac, Mkdir [''B''], Stat [''B'', ''bad.mp3''],
              Run (ffmpeg_cmd bad_flac False [''B'', ''bad.mp3''])]),
            ([''B''], Dir) # music_fs)
   \<and> convert_file gone_os to_B bad_flac None music_fs =
       Inr (((False, ''Error converting bad.flac: No such file or directory''),
             [Stat bad_flac, Mkdir [''B''], Stat [''B'', ''bad.mp3''],
              Run (ffmpeg_cmd bad_flac False [''B'', ''bad.mp3''])]),
            ([''B''], Dir) # music_fs)"
proof -
  have h5: "\<not> exists (([''B''], Dir) # music_fs) [''B'', ''x.mp3''] \<or> overwrite to_B"
    using x_wav_facts(7) by simp
  have h5': "\<not> exists (([''B''], Dir) # music_fs) [''B'', ''bad.mp3''] \<or> overwrite to_B"
    using bad_flac_facts(5) by simp
  have ow: "overwrite to_B = False" by (simp add: to_B_def)
  have good: "convert_file (sim_os True [] []) to_B x_wav None music_fs =
       Inr (((True, ''Converted: x.wav '' @ arrow @ '' x.mp3''),
             [Stat x_wav, Mkdir [''B''], Stat [''B'', ''x.mp3''],
              Run (ffmpeg_cmd x_wav False [''B'', ''x.mp3''])]),
            ([''B'', ''x.mp3''], File) # ([''B''], Dir) # music_fs)"
    using transcoder_outcome [OF x_wav_facts(1,2,5,6) h5, of "sim_os True [] []"]
    by (simp add: x_wav_facts sim_run_x_wav ow)
  have bad: "convert_file (sim_os True [bad_flac] []) to_B bad_flac None music_fs =
       Inr (((False, ''Conversion failed: bad.flac'' @ [CHR 0x0A]
                       @ ''Invalid data found when processing input''),
             [Stat bad_flac, Mkdir [''B''], Stat [''B'', ''bad.mp3''],
              Run (ffmpeg_cmd bad_flac False [''B'', ''bad.mp3''])]),
            ([''B''], Dir) # music_fs)"
    using transcoder_outcome [OF bad_flac_facts(1,2,3,4) h5', of "sim_os True [bad_flac] []"]
    by (simp add: bad_flac_facts ow)
  have gone: "convert_file gone_os to_B bad_flac None music_fs =
       Inr (((False, ''Error converting bad.flac: No such file or directory''),
             [Stat bad_flac, Mkdir [''B''], Stat [''B'', ''bad.mp3''],
              Run (ffmpeg_cmd bad_flac False [''B'', ''bad.mp3''])]),
            ([''B''], Dir) # music_fs)"
    using transcoder_outcome [OF bad_flac_facts(1,2,3,4) h5', of gone_os]
    by (simp add: bad_flac_facts ow)
  show ?thesis
    using x_wav_facts(1,2,5,6,7) good bad gone by simp
qed

section \<open>An output that exists\<close>

text \<open>
  Claim C1, as amended. For an input that exists and has a supported extension, whose
  output path exists (on a file system where every entry lies in a directory) and with
  \<open>overwrite\<close> false, \<open>convert_file\<close> returns a failure that reports a skip and does
  not start the transcoder. The message is \<^verbatim>\<open>Skipped (already 320kbps)\<close> exactly when
  the extension is \<^verbatim>\<open>.mp3\<close> in lower case and the probe reports at least 320 kbit/s,
  and \<^verbatim>\<open>Skipped (file exists)\<close> otherwise; a probe that cannot be started, exits with a
  non-zero code or prints no integer reports nothing, so the message is the second one.
\<close>

theorem existing_output_skipped:
  assumes "wf_fs fs" and "exists fs inp" and "lower (suffix inp) \<in> set SUPPORTED_FORMATS"
    and "derive_output_path self inp outp = Inr out"
    and "exists fs out" and "\<not> overwrite self"
  shows "(\<exists>evs fs'. convert_file w self inp outp fs =
            Inr (((False,
                   if lower (suffix inp) = ''.mp3''
                      \<and> (\<exists>b. fst (get_bitrate w inp fs) = Some b \<and> 320 \<le> b)
                   then ''Skipped (already 320kbps): '' @ name inp
                   else ''Skipped (file exists): '' @ name out), evs), fs')
            \<and> \<not> list_ex is_transcode evs)
         \<and> ((\<exists>e fs2. run w (ffprobe_cmd inp) fs = (Raised e, fs2))
              \<or> (\<exists>rc so se fs2. run w (ffprobe_cmd inp) fs = (Completed rc so se, fs2)
                    \<and> (rc \<noteq> 0 \<or> py_int (strip so) = None))
             \<longrightarrow> fst (get_bitrate w inp fs) = None)"
proof -
  note first = skip_branch_result [OF assms, of w]
  have second: "(\<exists>e fs2. run w (ffprobe_cmd inp) fs = (Raised e, fs2))
              \<or> (\<exists>rc so se fs2. run w (ffprobe_cmd inp) fs = (Completed rc so se, fs2)
                    \<and> (rc \<noteq> 0 \<or> py_int (strip so) = None))
             \<longrightarrow> fst (get_bitrate w inp fs) = None"
    using get_bitrate_unknown [of w inp fs] by fastforce
  show ?thesis using first second by (rule conjI)
qed

theorem existing_output_skipped_witness:
  "wf_fs music_fs \<and> exists music_fs old_mp3
   \<and> lower (suffix old_mp3) \<in> set SUPPORTED_FORMATS
   \<and> derive_output_path plain old_mp3 None = Inr old_mp3
   \<and> \<not> overwrite plain
   \<and> (\<exists>evs fs'. convert_file (sim_os True [] rates_320) plain old_mp3 None music_fs =
          Inr (((False, ''Skipped (already 320kbps): old.mp3''), evs), fs')
          \<and> \<not> list_ex is_transcode evs)
   \<and> (\<exists>evs fs'. convert_file (sim_os True [] rates_below) plain old_mp3 None music_fs =
          Inr (((False, ''Skipped (file exists): old.mp3''), evs), fs')
          \<and> \<not> list_ex is_transcode evs)
   \<and> (\<exists>evs fs'. convert_file (sim_os True [] []) plain old_mp3 None music_fs =
          Inr (((False, ''Skipped (file exists): old.mp3''), evs), fs')
          \<and> \<not> list_ex is_transcode evs)"
  using old_mp3_facts(1-5)
    existing_output_skipped [OF old_mp3_facts(1,2,3,4,2,5), of "sim_os True [] rates_320"]
    existing_output_skipped [OF old_mp3_facts(1,2,3,4,2,5), of "sim_os True [] rates_below"]
    existing_output_skipped [OF old_mp3_facts(1,2,3,4,2,5), of "sim_os True [] []"]
  by (simp add: old_mp3_facts(6-10))

text \<open>
  Claim C1 as it is stated fails for an input whose extension is not supported: the file
  \<^verbatim>\<open>notes.txt\<close> exists, its output path \<^verbatim>\<open>notes.mp3\<close> exists and \<open>overwrite\<close> is
  false, yet the result is the failure \<^verbatim>\<open>Unsupported format\<close> and no skip.
\<close>

theorem existing_output_counterexample:
  "exists notes_fs [''notes.txt'']
   \<and> derive_output_path plain [''notes.txt''] None = Inr [''notes.mp3'']
   \<and> exists notes_fs [''notes.mp3'']
   \<and> \<not> overwrite plain
   \<and> convert_file (sim_os True [] []) plain [''notes.txt''] None notes_fs =
       Inr (((False, ''Unsupported format: .txt''), [Stat [''notes.txt'']]), notes_fs)
   \<and> \<not> is_skip (False, ''Unsupported format: .txt'')"
proof -
  have "exists notes_fs [''notes.txt'']"
    and "derive_output_path plain [''notes.txt''] None = Inr [''notes.mp3'']"
    and "exists notes_fs [''notes.mp3'']"
    and "\<not> overwrite plain"
    and "convert_file (sim_os True [] []) plain [''notes.txt''] None notes_fs =
       Inr (((False, ''Unsupported format: .txt''), [Stat [''notes.txt'']]), notes_fs)"
    by code_simp+
  moreover have "\<not> is_skip (False, ''Unsupported format: .txt'')"
    by (simp add: is_skip_def)
  ultimately show ?thesis by blast
qed

text \<open>
  Claim C9. When the skip branch is reached for an input with the extension \<^verbatim>\<open>.mp3\<close>
  and the probe exits with code 0: if its output (stripped) is the integer \<open>n\<close>, the
  bit rate is \<open>n div 1000\<close> and the message is \<^verbatim>\<open>Skipped (already 320kbps)\<close> exactly
  when \<open>320 \<le> n div 1000\<close>, that is when \<open>320000 \<le> n\<close>; if the output is no integer,
  the message is \<^verbatim>\<open>Skipped (file exists)\<close>. So 319999 does not give the first message.
\<close>

theorem bitrate_threshold:
  assumes "wf_fs fs" and "exists fs inp" and "lower (suffix inp) = ''.mp3''"
    and "derive_output_path self inp outp = Inr out"
    and "exists fs out" and "\<not> overwrite self"
    and "run w (ffprobe_cmd inp) fs = (Completed 0 so se, fs2)"
  shows "(py_int (strip so) = Some n \<longrightarrow>
            fst (get_bitrate w inp fs) = Some (n div 1000)
            \<and> (320 \<le> n div 1000) = (320000 \<le> n)
            \<and> ((\<exists>evs fs'. convert_file w self inp outp fs =
                   Inr (((False, ''Skipped (already 320kbps): '' @ name inp), evs), fs'))
                 = (320000 \<le> n)))
         \<and> (py_int (strip so) = None \<longrightarrow>
              (\<exists>evs fs'. convert_file w self inp outp fs =
                   Inr (((False, ''Skipped (file exists): '' @ name out), evs), fs')))"
proof -
  have sup: "lower (suffix inp) \<in> set SUPPORTED_FORMATS"
    using assms(3) by (simp add: SUPPORTED_FORMATS_def)
  obtain evs fs' where c: "convert_file w self inp outp fs =
      Inr (((False,
             if lower (suffix inp) = ''.mp3''
                \<and> (\<exists>b. fst (get_bitrate w inp fs) = Some b \<and> 320 \<le> b)
             then ''Skipped (already 320kbps): '' @ name inp
             else ''Skipped (file exists): '' @ name out), evs), fs')"
    using skip_branch_result [OF assms(1,2) sup assms(4,5,6), of w] by blast
  have differ: "''Skipped (already 320kbps): '' @ x \<noteq> ''Skipped (file exists): '' @ y" for x y
    by simp
  have known: "fst (get_bitrate w inp fs) = Some (n div 1000)
            \<and> (320 \<le> n div 1000) = (320000 \<le> n)
            \<and> ((\<exists>evs fs'. convert_file w self inp outp fs =
                   Inr (((False, ''Skipped (already 320kbps): '' @ name inp), evs), fs'))
                 = (320000 \<le> n))"
    if p: "py_int (strip so) = Some n"
  proof -
    have g: "fst (get_bitrate w inp fs) = Some (n div 1000)"
      using get_bitrate_known [OF assms(7) p] by simp
    have a: "(320 \<le> n div 1000) = (320000 \<le> n)" by (rule kbps_threshold)
    have m: "convert_file w self inp outp fs =
      Inr (((False,
             if 320000 \<le> n
             then ''Skipped (already 320kbps): '' @ name inp
             else ''Skipped (file exists): '' @ name out), evs), fs')"
      using c g a assms(3) by simp
    have "(\<exists>evs fs'. convert_file w self inp outp fs =
                   Inr (((False, ''Skipped (already 320kbps): '' @ name inp), evs), fs'))
                 = (320000 \<le> n)"
    proof (cases "320000 \<le> n")
      case True
      then show ?thesis using m by simp
    next
      case False
      then show ?thesis using m differ by simp
    qed
    then show ?thesis using g a by simp
  qed
  have unknown: "\<exists>evs fs'. convert_file w self inp outp fs =
                   Inr (((False, ''Skipped (file exists): '' @ name out), evs), fs')"
    if p: "py_int (strip so) = None"
  proof -
    have "fst (get_bitrate w inp fs) = None"
      using get_bitrate_unknown(3) [OF assms(7) p] by simp
    then show ?thesis using c by simp
  qed
  show ?thesis using known unknown by blast
qed

theorem bitrate_threshold_witness:
  "wf_fs music_fs \<and> exists music_fs old_mp3 \<and> lower (suffix old_mp3) = ''.mp3''
   \<and> derive_output_path plain old_mp3 None = Inr old_mp3 \<and> \<not> overwrite plain
   \<and> run (sim_os True [] rates_below) (ffprobe_cmd old_mp3) music_fs
         = (Completed 0 (''319999'' @ [CHR 0x0A]) [], music_fs)
   \<and> py_int (strip (''319999'' @ [CHR 0x0A])) = Some 319999
   \<and> \<not> (\<exists>evs fs'. convert_file (sim_os True [] rates_below) plain old_mp3 None music_fs =
             Inr (((False, ''Skipped (already 320kbps): old.mp3''), evs), fs'))
   \<and> run (sim_os True [] rates_320) (ffprobe_cmd old_mp3) music_fs
         = (Completed 0 (''320000'' @ [CHR 0x0A]) [], music_fs)
   \<and> py_int (strip (''320000'' @ [CHR 0x0A])) = Some 320000
   \<and> (\<exists>evs fs'. convert_file (sim_os True [] rates_320) plain old_mp3 None music_fs =
             Inr (((False, ''Skipped (already 320kbps): old.mp3''), evs), fs'))"
  using old_mp3_facts(1,2,6,4,5) probe_below probe_320
    bitrate_threshold [OF old_mp3_facts(1,2,6,4,2,5) probe_below(1), of 319999]
    bitrate_threshold [OF old_mp3_facts(1,2,6,4,2,5) probe_320(1), of 320000]
  by (simp add: old_mp3_facts(7))

text \<open>
  Claim C2. Whenever \<open>convert_file\<close> returns a skip, the skip was decided by the check
  that the output exists, with \<open>overwrite\<close> false: up to and including that check the
  call has only looked at the input, made the output directory and looked at the output,
  and has started no process. What follows the decision is at most the one probe that
  chooses the message; the transcoder is never started. The decision does not depend on
  any process: on every platform the same call returns a skip after the same three steps.
\<close>

theorem skip_decided_before_any_process:
  assumes "convert_file w self inp outp fs = Inr ((r, evs), fs')" and "is_skip r"
  shows "\<exists>out fs1. derive_output_path self inp outp = Inr out
           \<and> mkdir (parent out) fs = Inr fs1
           \<and> exists fs1 out \<and> \<not> overwrite self
           \<and> (evs = [Stat inp, Mkdir (parent out), Stat out]
                \<or> evs = [Stat inp, Mkdir (parent out), Stat out, Run (ffprobe_cmd inp)])
           \<and> \<not> list_ex is_process (take 3 evs)
           \<and> \<not> list_ex is_transcode evs
           \<and> (\<forall>w'. \<exists>r' evs' fs''.
                  convert_file w' self inp outp fs = Inr ((r', evs'), fs'')
                  \<and> is_skip r' \<and> take 3 evs' = take 3 evs)"
proof -
  have ex: "exists fs inp"
    using assms by (auto simp: convert_file_def is_skip_def split: if_splits)
  have sup: "lower (suffix inp) \<in> set SUPPORTED_FORMATS"
    using assms ex by (auto simp: convert_file_def is_skip_def split: if_splits)
  obtain out where d: "derive_output_path self inp outp = Inr out"
    using assms(1) ex sup
    by (cases "derive_output_path self inp outp") (auto simp: convert_file_def)
  note valid = convert_file_valid [OF ex sup d]
  obtain fs1 where m: "mkdir (parent out) fs = Inr fs1"
    using assms(1) valid [of w] by (cases "mkdir (parent out) fs") auto
  have br: "exists fs1 out \<and> \<not> overwrite self"
  proof (rule ccontr)
    assume n: "\<not> (exists fs1 out \<and> \<not> overwrite self)"
    obtain r1 ev1 fs2 where t: "transcode w self inp out fs1 = ((r1, ev1), fs2)"
      by (metis prod.exhaust)
    then have "r = r1" using assms(1) valid [of w] m n by auto
    then show False using transcode_not_skip [OF t] assms(2) by simp
  qed
  obtain r1 ev1 fs2 where s: "skip_existing w inp out fs1 = ((r1, ev1), fs2)"
    by (metis prod.exhaust)
  have evs: "evs = [Stat inp, Mkdir (parent out), Stat out] @ ev1"
    using assms(1) valid [of w] m br s by simp
  have shape: "evs = [Stat inp, Mkdir (parent out), Stat out]
                \<or> evs = [Stat inp, Mkdir (parent out), Stat out, Run (ffprobe_cmd inp)]"
    using evs skip_existing_events [OF s] by auto
  have quiet: "\<not> list_ex is_process (take 3 evs)"
    using shape by (auto simp: is_process_def)
  have nt: "\<not> list_ex is_transcode evs"
    using shape not_transcode_prefix by auto
  have other: "\<exists>r' evs' fs''.
                  convert_file w' self inp outp fs = Inr ((r', evs'), fs'')
                  \<and> is_skip r' \<and> take 3 evs' = take 3 evs" for w'
  proof -
    obtain r2 ev2 fs3 where s': "skip_existing w' inp out fs1 = ((r2, ev2), fs3)"
      by (metis prod.exhaust)
    have "convert_file w' self inp outp fs =
            Inr ((r2, [Stat inp, Mkdir (parent out), Stat out] @ ev2), fs3)"
      using valid [of w'] m br s' by simp
    then show ?thesis
      using skip_existing_is_skip [OF s'] evs by simp
  qed
  show ?thesis using d m br shape quiet nt other by blast
qed

theorem skip_decided_before_any_process_witness:
  "convert_file (sim_os True [] rates_320) plain old_mp3 None music_fs =
     Inr (((False, ''Skipped (already 320kbps): old.mp3''),
           [Stat old_mp3, Mkdir [''A'', ''sub''], Stat old_mp3, Run (ffprobe_cmd old_mp3)]),
          music_fs)
   \<and> is_skip (False, ''Skipped (already 320kbps): old.mp3'')
   \<and> \<not> list_ex is_process
         (take 3 [Stat old_mp3, Mkdir [''A'', ''sub''], Stat old_mp3, Run (ffprobe_cmd old_mp3)])
   \<and> (\<exists>r' evs' fs''.
         convert_file (sim_os True [] []) plain old_mp3 None music_fs = Inr ((r', evs'), fs'')
         \<and> is_skip r')"
proof -
  have sk: "is_skip (False, ''Skipped (already 320kbps): old.mp3'')"
    by (simp add: is_skip_def)
  show ?thesis
    using old_mp3_run sk skip_decided_before_any_process [OF old_mp3_run sk]
    by blast
qed

section \<open>The candidates of a directory\<close>

lemma set_glob:
  "set (glob cs fs d r ext) =
     {p \<in> fst ` set fs. take (length d) p = d
         \<and> (if r then length d < length p else length p = Suc (length d))
         \<and> matches cs (last p) ext}"
  by (auto simp: glob_def)

lemma set_find_audio_files:
  "set (find_audio_files cs exts fs d r) =
     (\<Union>ext \<in> set exts. set (glob cs fs d r ext) \<union> set (glob cs fs d r (upper ext)))"
  by (auto simp: find_audio_files_def)

lemma find_audio_files_order:
  assumes "set exts' = set exts" and "fst ` set fs' = fst ` set fs"
  shows "set (find_audio_files cs exts' fs' d r) = set (find_audio_files cs exts fs d r)"
  using assms by (simp add: set_find_audio_files set_glob)

text \<open>
  Claim C3. The candidates of \<open>convert_directory\<close> are the files \<open>glob\<close> found, each
  once, in ascending order of their paths (compared component by component); the list is
  the same for every order in which the extensions are visited and every order in which
  the directory scan yields the same entries, also where a name matches both the lower
  case and the upper case pattern. It is this list that \<open>convert_directory\<close> processes.
\<close>

theorem candidates_deterministic:
  assumes "set exts' = set exts" and "fst ` set fs' = fst ` set fs"
  shows "distinct (candidates cs exts fs d r)
         \<and> sorted (candidates cs exts fs d r)
         \<and> set (candidates cs exts fs d r) = set (find_audio_files cs exts fs d r)
         \<and> candidates cs exts' fs' d r = candidates cs exts fs d r
         \<and> (is_dir fs d
                \<and> find_audio_files (case_sensitive w) SUPPORTED_FORMATS fs d r \<noteq> []
              \<longrightarrow> convert_directory w self d r fs =
                    convert_each w self d r
                      (candidates (case_sensitive w) SUPPORTED_FORMATS fs d r) fs)"
proof -
  have "candidates cs exts' fs' d r = candidates cs exts fs d r"
    using find_audio_files_order [OF assms] by (simp add: candidates_def)
  then show ?thesis
    by (auto simp: candidates_def convert_directory_def exists_def is_dir_def)
qed

lemma shuffled:
  "set (rev SUPPORTED_FORMATS) = set SUPPORTED_FORMATS"
  "fst ` set shuffled_fs = fst ` set music_fs"
  by (simp_all add: shuffled_fs_def music_fs_def insert_commute)

lemma music_candidates:
  "find_audio_files False SUPPORTED_FORMATS music_fs [''A''] True =
     [[''A'', ''sub'', ''old.mp3''], [''A'', ''sub'', ''old.mp3''],
      [''A'', ''sub'', ''x.wav''], [''A'', ''sub'', ''x.wav''],
      [''A'', ''sub'', ''bad.flac''], [''A'', ''sub'', ''bad.flac'']]"
  "candidates False SUPPORTED_FORMATS music_fs [''A''] True =
     [[''A'', ''sub'', ''bad.flac''], [''A'', ''sub'', ''old.mp3''], [''A'', ''sub'', ''x.wav'']]"
  by code_simp+

theorem candidates_deterministic_witness:
  "set (rev SUPPORTED_FORMATS) = set SUPPORTED_FORMATS
   \<and> fst ` set shuffled_fs = fst ` set music_fs
   \<and> find_audio_files False SUPPORTED_FORMATS music_fs [''A''] True =
       [[''A'', ''sub'', ''old.mp3''], [''A'', ''sub'', ''old.mp3''],
        [''A'', ''sub'', ''x.wav''], [''A'', ''sub'', ''x.wav''],
        [''A'', ''sub'', ''bad.flac''], [''A'', ''sub'', ''bad.flac'']]
   \<and> candidates False (rev SUPPORTED_FORMATS) shuffled_fs [''A''] True =
       [[''A'', ''sub'', ''bad.flac''], [''A'', ''sub'', ''old.mp3''], [''A'', ''sub'', ''x.wav'']]
   \<and> distinct (candidates False SUPPORTED_FORMATS music_fs [''A''] True)
   \<and> sorted (candidates False SUPPORTED_FORMATS music_fs [''A''] True)"
  using shuffled music_candidates
    candidates_deterministic [OF shuffled, of False "[''A'']" True "sim_os False [] []" plain]
  by simp



section \<open>The exit code\<close>

lemma failed_zero:
  "(length xs - length (filter P xs) = 0) = list_all P xs"
proof -
  have "length (filter P xs) + length (filter (\<lambda>x. \<not> P x) xs) = length xs"
    by (rule sum_length_filter_compl)
  then have "length xs - length (filter P xs) = length (filter (\<lambda>x. \<not> P x) xs)"
    by simp
  then show ?thesis
    by (simp add: filter_empty_conv list_all_iff)
qed

lemma init_ok:
  "which w ''ffmpeg'' \<Longrightarrow>
     init w (arg_output a) (arg_overwrite a) (\<not> no_structure a) = Inr (converter_of a)"
  by (simp add: init_def check_ffmpeg_def converter_of_def)

lemma main_file:
  assumes "which w ''ffmpeg''" and "is_file fs (Path (arg_input a))"
  shows "main w a fs =
           (case convert_file w (converter_of a) (Path (arg_input a)) (output_of a) fs of
              Inl e \<Rightarrow> Inl e
            | Inr ((r, evs), fs') \<Rightarrow> Inr (if fst r then 0 else 1))"
  unfolding main_def init_ok [OF assms(1)] output_of_def using assms(2) by simp

lemma exit_of_results:
  "(let successful = length (filter P results); failed = length results - successful
    in Inr (if failed = 0 then 0 else 1))
   = (Inr (if list_all P results then 0 else (1::int)) :: error + int)"
  using failed_zero [of results P] by (simp add: Let_def del: diff_is_0_eq)

lemma main_dir_run:
  assumes "which w ''ffmpeg''" and "\<not> is_file fs (Path (arg_input a))"
    and "is_dir fs (Path (arg_input a))"
  shows "main w a fs =
           (case convert_directory w (converter_of a) (Path (arg_input a))
                   (\<not> no_recursive a) fs of
              Inl e \<Rightarrow> Inl e
            | Inr (results, fs') \<Rightarrow>
                Inr (if list_all (\<lambda>x. fst (fst x)) results then 0 else 1))"
  unfolding main_def init_ok [OF assms(1)] exit_of_results using assms(2,3) by simp

lemma main_neither:
  assumes "\<not> is_file fs (Path (arg_input a))" and "\<not> is_dir fs (Path (arg_input a))"
    and "main w a fs = Inr code"
  shows "code = 1"
  using assms by (auto simp: main_def split: sum.splits)

lemma main_started: "main w a fs = Inr code \<Longrightarrow> which w ''ffmpeg''"
  by (auto simp: main_def init_def check_ffmpeg_def split: if_splits)

text \<open>
  Claim C8. When \<open>main\<close> ends with an exit code, the code is 0 or 1, and it is 0
  exactly when every result that \<open>main\<close> has is a success: the one result of
  \<open>convert_file\<close> when the input is a file, every entry of the list that
  \<open>convert_directory\<close> returns when the input is a directory. So the code is 1 when a
  result is a failure or a skip, and it is 1 when the input path does not exist.
\<close>

theorem main_exit_code:
  assumes "main w a fs = Inr code"
  shows "(code = 0 \<or> code = 1)
         \<and> (code = 0) =
             ((is_file fs (Path (arg_input a))
               \<and> (\<exists>r evs fs'. convert_file w (converter_of a) (Path (arg_input a))
                                 (output_of a) fs = Inr ((r, evs), fs') \<and> fst r))
              \<or> (\<not> is_file fs (Path (arg_input a)) \<and> is_dir fs (Path (arg_input a))
                  \<and> (\<exists>results fs'.
                        convert_directory w (converter_of a) (Path (arg_input a))
                          (\<not> no_recursive a) fs = Inr (results, fs')
                        \<and> list_all (\<lambda>x. fst (fst x)) results)))
         \<and> (\<not> exists fs (Path (arg_input a)) \<longrightarrow> code = 1)"
proof -
  note st = main_started [OF assms]
  let ?inp = "Path (arg_input a)"
  let ?file = "is_file fs ?inp
               \<and> (\<exists>r evs fs'. convert_file w (converter_of a) ?inp
                                 (output_of a) fs = Inr ((r, evs), fs') \<and> fst r)"
  let ?dir = "\<not> is_file fs ?inp \<and> is_dir fs ?inp
                  \<and> (\<exists>results fs'.
                        convert_directory w (converter_of a) ?inp
                          (\<not> no_recursive a) fs = Inr (results, fs')
                        \<and> list_all (\<lambda>x. fst (fst x)) results)"
  have absent: "\<not> is_file fs ?inp \<and> \<not> is_dir fs ?inp" if "\<not> exists fs ?inp"
    using that by (simp add: exists_def is_file_def is_dir_def)
  have main: "(code = 0 \<or> code = 1) \<and> (code = 0) = (?file \<or> ?dir)"
  proof (cases "is_file fs ?inp")
    case True
    note m = main_file [OF st True]
    show ?thesis
    proof (cases "convert_file w (converter_of a) ?inp (output_of a) fs")
      case (Inl e)
      then show ?thesis using assms m by simp
    next
      case (Inr x)
      then obtain r evs fs' where x: "x = ((r, evs), fs')"
        by (metis prod.exhaust)
      have "code = (if fst r then 0 else 1)" using assms m Inr x by simp
      then show ?thesis using True Inr x by auto
    qed
  next
    case False
    show ?thesis
    proof (cases "is_dir fs ?inp")
      case True
      note m = main_dir_run [OF st False True]
      show ?thesis
      proof (cases "convert_directory w (converter_of a) ?inp (\<not> no_recursive a) fs")
        case (Inl e)
        then show ?thesis using assms m by simp
      next
        case (Inr x)
        then obtain results fs' where x: "x = (results, fs')"
          by (metis prod.exhaust)
        have "code = (if list_all (\<lambda>x. fst (fst x)) results then 0 else 1)"
          using assms m Inr x by simp
        then show ?thesis using False True Inr x by auto
      qed
    next
      case nd: False
      have "code = 1" using main_neither [OF False nd assms] .
      then show ?thesis using False nd by simp
    qed
  qed
  have "code = 1" if "\<not> exists fs ?inp"
    using main_neither [OF _ _ assms] absent [OF that] by simp
  then show ?thesis using main by blast
qed

lemma music_main:
  "main (sim_os True [bad_flac] []) music_args music_fs = Inr 1"
  "main (sim_os True [] []) music_args [([''A''], Dir), ([''A'', ''x.wav''], File)] = Inr 0"
  "main (sim_os True [] []) empty_dir_args [([''A''], Dir)] = Inr 1"
  "main (sim_os True [] []) empty_dir_args [] = Inr 1"
  "\<not> is_file [([''A''], Dir), ([''A'', ''x.wav''], File)] (Path (arg_input music_args))"
  "\<not> is_file [([''A''], Dir)] (Path (arg_input empty_dir_args))"
  "is_dir [([''A''], Dir)] (Path (arg_input empty_dir_args))"
  "convert_directory (sim_os True [] []) (converter_of empty_dir_args)
     (Path (arg_input empty_dir_args)) (\<not> no_recursive empty_dir_args) [([''A''], Dir)]
   = Inr ([((False, ''No audio files found in: A''), [])], [([''A''], Dir)])"
  "\<not> exists [] (Path (arg_input empty_dir_args))"
  by code_simp+

theorem main_exit_code_witness:
  "main (sim_os True [] []) music_args [([''A''], Dir), ([''A'', ''x.wav''], File)] = Inr 0
   \<and> is_dir [([''A''], Dir), ([''A'', ''x.wav''], File)] (Path (arg_input music_args))
   \<and> (\<exists>results fs'.
         convert_directory (sim_os True [] []) (converter_of music_args)
           (Path (arg_input music_args)) (\<not> no_recursive music_args)
           [([''A''], Dir), ([''A'', ''x.wav''], File)] = Inr (results, fs')
         \<and> list_all (\<lambda>x. fst (fst x)) results)
   \<and> main (sim_os True [bad_flac] []) music_args music_fs = Inr 1
   \<and> main (sim_os True [] []) empty_dir_args [([''A''], Dir)] = Inr 1
   \<and> convert_directory (sim_os True [] []) (converter_of empty_dir_args)
        (Path (arg_input empty_dir_args)) (\<not> no_recursive empty_dir_args) [([''A''], Dir)]
      = Inr ([((False, ''No audio files found in: A''), [])], [([''A''], Dir)])
   \<and> \<not> exists [] (Path (arg_input empty_dir_args))
   \<and> main (sim_os True [] []) empty_dir_args [] = Inr 1"
  using music_main main_exit_code [OF music_main(2)] by auto

section \<open>Candidates with the same stem\<close>






















end
